theory Spec2Isabelle
  imports Complex_Main
begin

section \<open>ecef\_to\_sez.py: ECEF position to topocentric SEZ components\<close>

text \<open>
  The script reads six floats (the ECEF origin of the SEZ frame and an ECEF position),
  solves the origin's geodetic latitude by a fixed-point loop, and prints the three SEZ
  components of the position relative to the origin.

  Number model. A Python float is either \<open>NaN\<close> or \<open>Fin r\<close> with \<open>r\<close> an exact real:
  the script itself creates and tests NaN (\<^verbatim>\<open>float('nan')\<close>, \<^verbatim>\<open>isnan\<close>), so NaN is a value of
  the model and every operation propagates it the way Python does. A finite float stands
  for the real it denotes and \<^verbatim>\<open>+\<close>, \<^verbatim>\<open>-\<close>, \<^verbatim>\<open>*\<close>, \<^verbatim>\<open>/\<close> and the \<^verbatim>\<open>math\<close> functions are
  exact: rounding, the two signed zeros and the infinities (an argument \<^verbatim>\<open>inf\<close>, or a
  sum, difference or product beyond the largest float) are outside the model.

  The exceptions of Python's arithmetic are values. Float division by zero raises
  \<^verbatim>\<open>ZeroDivisionError\<close> (whatever the numerator, NaN included); \<^verbatim>\<open>math.sqrt\<close> and
  \<^verbatim>\<open>math.asin\<close> raise \<^verbatim>\<open>ValueError: math domain error\<close> outside their domains; and the
  power \<^verbatim>\<open>a**2\<close>, the one operation of the script that raises when its result leaves the
  finite floats, raises \<^verbatim>\<open>OverflowError\<close>.
\<close>

subsection \<open>Python floats and the \<^verbatim>\<open>math\<close> functions the script imports\<close>

datatype pyfloat = NaN | Fin real

datatype py_error =
    ZeroDivisionError      \<comment> \<open>\<^verbatim>\<open>float division by zero\<close>\<close>
  | ValueError             \<comment> \<open>\<^verbatim>\<open>math domain error\<close>\<close>
  | OverflowError          \<comment> \<open>\<^verbatim>\<open>(34, 'Numerical result out of range')\<close>\<close>
  | FloatParseError        \<comment> \<open>the \<^verbatim>\<open>ValueError\<close> of \<^verbatim>\<open>float(s)\<close> on a string that is no number\<close>

fun isnan :: "pyfloat \<Rightarrow> bool" where
  "isnan NaN = True"
| "isnan (Fin r) = False"

fun lift1 :: "(real \<Rightarrow> real) \<Rightarrow> pyfloat \<Rightarrow> pyfloat" where
  "lift1 f (Fin a) = Fin (f a)"
| "lift1 f NaN = NaN"

fun lift2 :: "(real \<Rightarrow> real \<Rightarrow> real) \<Rightarrow> pyfloat \<Rightarrow> pyfloat \<Rightarrow> pyfloat" where
  "lift2 f (Fin a) (Fin b) = Fin (f a b)"
| "lift2 f a b = NaN"

instantiation pyfloat :: "{plus, minus, times, uminus, abs}"
begin

definition plus_pyfloat :: "pyfloat \<Rightarrow> pyfloat \<Rightarrow> pyfloat" where
  "plus_pyfloat a b = lift2 (\<lambda>x y. x + y) a b"

definition minus_pyfloat :: "pyfloat \<Rightarrow> pyfloat \<Rightarrow> pyfloat" where
  "minus_pyfloat a b = lift2 (\<lambda>x y. x - y) a b"

definition times_pyfloat :: "pyfloat \<Rightarrow> pyfloat \<Rightarrow> pyfloat" where
  "times_pyfloat a b = lift2 (\<lambda>x y. x * y) a b"

definition uminus_pyfloat :: "pyfloat \<Rightarrow> pyfloat" where
  "uminus_pyfloat a = lift1 (\<lambda>x. - x) a"

definition abs_pyfloat :: "pyfloat \<Rightarrow> pyfloat" where
  "abs_pyfloat a = lift1 (\<lambda>x. \<bar>x\<bar>) a"

instance ..

end

text \<open>\<^verbatim>\<open>a > b\<close>: every comparison with NaN is false.\<close>

fun py_gt :: "pyfloat \<Rightarrow> pyfloat \<Rightarrow> bool" where
  "py_gt (Fin a) (Fin b) = (a > b)"
| "py_gt a b = False"

text \<open>\<^verbatim>\<open>a / b\<close> on floats: a zero divisor raises before anything else is looked at.\<close>

definition py_div :: "pyfloat \<Rightarrow> pyfloat \<Rightarrow> py_error + pyfloat" where
  "py_div a b = (if b = Fin 0 then Inl ZeroDivisionError else Inr (lift2 (\<lambda>x y. x / y) a b))"

text \<open>
  \<^verbatim>\<open>a**2\<close>. A square that rounds beyond the largest float, that is one of at least
  \<open>2\<^sup>1\<^sup>0\<^sup>2\<^sup>4 - 2\<^sup>9\<^sup>7\<^sup>0\<close>, raises \<^verbatim>\<open>OverflowError\<close> (\<^verbatim>\<open>1e200**2\<close>). A square of at most half
  the least positive float, \<open>2\<^sup>-\<^sup>1\<^sup>0\<^sup>7\<^sup>5\<close>, is \<^verbatim>\<open>0.0\<close> and raises nothing
  (\<^verbatim>\<open>1e-200**2\<close>). Between the two the square is taken exact.
\<close>

definition pow_overflow :: real where
  "pow_overflow = 2 ^ 1024 - 2 ^ 970"

definition pow_underflow :: real where
  "pow_underflow = 1 / 2 ^ 1075"

fun pow2 :: "pyfloat \<Rightarrow> py_error + pyfloat" where
  "pow2 NaN = Inr NaN"
| "pow2 (Fin a) =
     (if pow_overflow \<le> a ^ 2 then Inl OverflowError
      else if a ^ 2 \<le> pow_underflow then Inr (Fin 0)
      else Inr (Fin (a ^ 2)))"

declare pow2.simps(2) [simp del]

fun py_sqrt :: "pyfloat \<Rightarrow> py_error + pyfloat" where
  "py_sqrt NaN = Inr NaN"
| "py_sqrt (Fin a) = (if a < 0 then Inl ValueError else Inr (Fin (sqrt a)))"

fun py_asin :: "pyfloat \<Rightarrow> py_error + pyfloat" where
  "py_asin NaN = Inr NaN"
| "py_asin (Fin a) = (if a < - 1 \<or> 1 < a then Inl ValueError else Inr (Fin (arcsin a)))"

definition py_sin :: "pyfloat \<Rightarrow> pyfloat" where
  "py_sin a = lift1 sin a"

definition py_cos :: "pyfloat \<Rightarrow> pyfloat" where
  "py_cos a = lift1 cos a"

definition py_atan :: "pyfloat \<Rightarrow> pyfloat" where
  "py_atan a = lift1 arctan a"

text \<open>
  \<^verbatim>\<open>math.atan2(y, x)\<close>: the angle of the point \<open>(x, y)\<close>, by quadrant; \<open>0\<close> at the
  origin. The model has one zero. Python tells \<^verbatim>\<open>-0.0\<close> from \<^verbatim>\<open>0.0\<close> here: for \<open>x < 0\<close>
  and \<^verbatim>\<open>y = -0.0\<close> it returns the float nearest to \<open>-\<pi>\<close> (a number above \<open>-\<pi>\<close>), where
  this definition gives \<open>\<pi>\<close>; for \<open>x = 0\<close> and \<open>y = 0\<close> it returns \<open>0\<close> or \<open>\<plusminus>\<pi>\<close> by
  the signs of the zeros. Every value it returns lies in \<open>(-\<pi>, \<pi>]\<close>, as here.
\<close>

definition atan2_real :: "real \<Rightarrow> real \<Rightarrow> real" where
  "atan2_real y x =
     (if 0 < x then arctan (y / x)
      else if x < 0 then (if 0 \<le> y then arctan (y / x) + pi else arctan (y / x) - pi)
      else if 0 < y then pi / 2
      else if y < 0 then - (pi / 2)
      else 0)"

definition py_atan2 :: "pyfloat \<Rightarrow> pyfloat \<Rightarrow> pyfloat" where
  "py_atan2 y x = lift2 atan2_real y x"

subsection \<open>Constants and \<^verbatim>\<open>calc_denom\<close> (lines 32--38)\<close>

definition R_E_KM :: pyfloat where
  "R_E_KM = Fin 6378.137"

definition E_E :: pyfloat where
  "E_E = Fin 0.081819221456"

text \<open>The loop's threshold, the literal \<^verbatim>\<open>10e-7\<close>: ten times ten to the minus seven.\<close>

definition tol :: pyfloat where
  "tol = Fin (10 * (1 / 10 ^ 7))"

definition calc_denom :: "pyfloat \<Rightarrow> pyfloat \<Rightarrow> py_error + pyfloat" where
  "calc_denom ecc lat =
     (case pow2 ecc of
        Inl e \<Rightarrow> Inl e
      | Inr ecc2 \<Rightarrow>
          (case pow2 (py_sin lat) of
             Inl e \<Rightarrow> Inl e
           | Inr sin2 \<Rightarrow> py_sqrt (Fin 1 - ecc2 * sin2)))"

subsection \<open>Difference vector (lines 63--65)\<close>

type_synonym vec3 = "pyfloat \<times> pyfloat \<times> pyfloat"

text \<open>\<open>difference target origin\<close>: the target minus the origin, component by component.\<close>

fun difference :: "vec3 \<Rightarrow> vec3 \<Rightarrow> vec3" where
  "difference (x_km, y_km, z_km) (o_x_km, o_y_km, o_z_km) =
     (x_km - o_x_km, y_km - o_y_km, z_km - o_z_km)"

subsection \<open>Geodetic latitude, longitude and height of the origin (lines 68--87)\<close>

text \<open>
  Line 72. The numerator is \<^verbatim>\<open>z_vec_km\<close>, the z component of the difference vector; the
  denominator is the norm of the origin. Python evaluates the three squares from left to
  right, the square root, then the division, then \<^verbatim>\<open>asin\<close>, and the first of them to
  raise ends the script.
\<close>

definition origin_norm :: "pyfloat \<Rightarrow> pyfloat \<Rightarrow> pyfloat \<Rightarrow> py_error + pyfloat" where
  "origin_norm o_x_km o_y_km o_z_km =
     (case pow2 o_x_km of
        Inl e \<Rightarrow> Inl e
      | Inr x2 \<Rightarrow>
          (case pow2 o_y_km of
             Inl e \<Rightarrow> Inl e
           | Inr y2 \<Rightarrow>
               (case pow2 o_z_km of
                  Inl e \<Rightarrow> Inl e
                | Inr z2 \<Rightarrow> py_sqrt (x2 + y2 + z2))))"

definition lat_init :: "pyfloat \<Rightarrow> pyfloat \<Rightarrow> pyfloat \<Rightarrow> pyfloat \<Rightarrow> py_error + pyfloat" where
  "lat_init z_vec_km o_x_km o_y_km o_z_km =
     (case origin_norm o_x_km o_y_km o_z_km of
        Inl e \<Rightarrow> Inl e
      | Inr n \<Rightarrow> (case py_div z_vec_km n of
                    Inl e \<Rightarrow> Inl e
                  | Inr q \<Rightarrow> py_asin q))"

text \<open>Line 73.\<close>

definition r_lon_km :: "pyfloat \<Rightarrow> pyfloat \<Rightarrow> py_error + pyfloat" where
  "r_lon_km o_x_km o_y_km =
     (case pow2 o_x_km of
        Inl e \<Rightarrow> Inl e
      | Inr x2 \<Rightarrow>
          (case pow2 o_y_km of
             Inl e \<Rightarrow> Inl e
           | Inr y2 \<Rightarrow> py_sqrt (x2 + y2)))"

text \<open>The variables the loop of lines 79--84 reads and writes.\<close>

record loop_state =
  lat_rad :: pyfloat
  prev_lat_rad :: pyfloat
  c_E :: pyfloat
  count :: nat

text \<open>The loop's condition (line 79).\<close>

definition loop_cond :: "loop_state \<Rightarrow> bool" where
  "loop_cond s \<longleftrightarrow>
     (isnan (prev_lat_rad s) \<or> py_gt (\<bar>lat_rad s - prev_lat_rad s\<bar>) tol) \<and> count s < 5"

text \<open>One pass through the loop's body (lines 80--84); \<open>r\<close> is \<^verbatim>\<open>r_lon_km\<close>.\<close>

definition loop_body :: "pyfloat \<Rightarrow> pyfloat \<Rightarrow> loop_state \<Rightarrow> py_error + loop_state" where
  "loop_body o_z_km r s =
     (case calc_denom E_E (lat_rad s) of
        Inl e \<Rightarrow> Inl e
      | Inr denom \<Rightarrow>
          (case py_div R_E_KM denom of
             Inl e \<Rightarrow> Inl e
           | Inr c \<Rightarrow>
               (case pow2 E_E of
                  Inl e \<Rightarrow> Inl e
                | Inr e2 \<Rightarrow>
                    (case py_div (o_z_km + c * e2 * py_sin (lat_rad s)) r of
                       Inl e \<Rightarrow> Inl e
                     | Inr q \<Rightarrow>
                         Inr \<lparr>lat_rad = py_atan q, prev_lat_rad = lat_rad s, c_E = c,
                              count = count s + 1\<rparr>))))"

function lat_loop :: "pyfloat \<Rightarrow> pyfloat \<Rightarrow> loop_state \<Rightarrow> py_error + loop_state" where
  "lat_loop o_z_km r s =
     (if loop_cond s then
        (case loop_body o_z_km r s of
           Inl e \<Rightarrow> Inl e
         | Inr s' \<Rightarrow> lat_loop o_z_km r s')
      else Inr s)"
  by pat_completeness auto
termination
proof (relation "measure (\<lambda>(o_z_km, r, s). 5 - count s)")
  show "wf (measure (\<lambda>(o_z_km, r, s). 5 - count s))"
    by simp
next
  fix o_z_km r :: pyfloat and s s' :: loop_state
  assume c: "loop_cond s" and b: "loop_body o_z_km r s = Inr s'"
  from b have "count s' = count s + 1"
    by (auto simp: loop_body_def split: sum.splits)
  moreover from c have "count s < 5"
    by (simp add: loop_cond_def)
  ultimately show "((o_z_km, r, s'), (o_z_km, r, s)) \<in> measure (\<lambda>(o_z_km, r, s). 5 - count s)"
    by simp
qed

declare lat_loop.simps [simp del]

text \<open>The state before the loop (lines 72, 74, 77, 78).\<close>

definition loop_init :: "pyfloat \<Rightarrow> loop_state" where
  "loop_init lat0 = \<lparr>lat_rad = lat0, prev_lat_rad = NaN, c_E = NaN, count = 0\<rparr>"

record pose =
  pose_lat :: pyfloat
  pose_lon :: pyfloat
  pose_hae :: pyfloat

text \<open>
  Lines 68--87 in the script's order: longitude, initial latitude, \<^verbatim>\<open>r_lon_km\<close>, the
  loop, the height. (\<^verbatim>\<open>lon_deg\<close> of line 69 is a product that cannot raise and is never
  read.) The script reads \<^verbatim>\<open>z_vec_km\<close> here, so it is an argument.
\<close>

definition solve :: "pyfloat \<Rightarrow> pyfloat \<Rightarrow> pyfloat \<Rightarrow> pyfloat \<Rightarrow> py_error + pose" where
  "solve z_vec_km o_x_km o_y_km o_z_km =
     (let lon = py_atan2 o_y_km o_x_km in
      case lat_init z_vec_km o_x_km o_y_km o_z_km of
        Inl e \<Rightarrow> Inl e
      | Inr lat0 \<Rightarrow>
          (case r_lon_km o_x_km o_y_km of
             Inl e \<Rightarrow> Inl e
           | Inr r \<Rightarrow>
               (case lat_loop o_z_km r (loop_init lat0) of
                  Inl e \<Rightarrow> Inl e
                | Inr s \<Rightarrow>
                    (case py_div r (py_cos (lat_rad s)) of
                       Inl e \<Rightarrow> Inl e
                     | Inr h \<Rightarrow>
                         Inr \<lparr>pose_lat = lat_rad s, pose_lon = lon,
                              pose_hae = h - c_E s\<rparr>))))"

subsection \<open>Rotation into SEZ (lines 90--96)\<close>

text \<open>The result is \<open>(s_km, e_km, z_km)\<close>.\<close>

fun rotate :: "vec3 \<Rightarrow> pose \<Rightarrow> vec3" where
  "rotate (x_vec_km, y_vec_km, z_vec_km) p =
     (let lat = pose_lat p; lon = pose_lon p in
      (x_vec_km * py_cos lon + y_vec_km * py_sin lon * py_sin lat - z_vec_km * py_cos lat,
       x_vec_km * (- py_sin lon) + y_vec_km * py_cos lon,
       (x_vec_km * py_cos lon + y_vec_km * py_sin lon) * py_cos lat + z_vec_km * py_sin lat))"

subsection \<open>The script\<close>

text \<open>
  What a run leaves behind: the lines on standard output and how the process ended.
  \<^verbatim>\<open>print(x)\<close> of a float writes its default string form, kept here as the float.
\<close>

datatype out_line = Text string | FloatStr pyfloat

datatype ending = Completed | SysExit | Uncaught py_error

record run =
  stdout :: "out_line list"
  ending :: ending

text \<open>
  The exit status: \<^verbatim>\<open>sys.exit()\<close> without an argument and the end of the script give 0, an
  uncaught exception gives 1.
\<close>

fun exit_status :: "ending \<Rightarrow> nat" where
  "exit_status Completed = 0"
| "exit_status SysExit = 0"
| "exit_status (Uncaught e) = 1"

fun is_numeric :: "out_line \<Rightarrow> bool" where
  "is_numeric (FloatStr v) = True"
| "is_numeric (Text t) = False"

definition usage :: string where
  "usage = ''Usage: python3 ecef_to_sez.py o_x_km o_y_km o_z_km x_km y_km z_km''"

text \<open>Lines 60--101, on the six parsed floats. Nothing is printed before line 99.\<close>

definition ecef_to_sez ::
  "pyfloat \<Rightarrow> pyfloat \<Rightarrow> pyfloat \<Rightarrow> pyfloat \<Rightarrow> pyfloat \<Rightarrow> pyfloat \<Rightarrow> run" where
  "ecef_to_sez o_x_km o_y_km o_z_km x_km y_km z_km =
     (case difference (x_km, y_km, z_km) (o_x_km, o_y_km, o_z_km) of
        (x_vec_km, y_vec_km, z_vec_km) \<Rightarrow>
          (case solve z_vec_km o_x_km o_y_km o_z_km of
             Inl e \<Rightarrow> \<lparr>stdout = [], ending = Uncaught e\<rparr>
           | Inr p \<Rightarrow>
               (case rotate (x_vec_km, y_vec_km, z_vec_km) p of
                  (s_km, e_km, z_sez_km) \<Rightarrow>
                    \<lparr>stdout = [FloatStr s_km, FloatStr e_km, FloatStr z_sez_km],
                     ending = Completed\<rparr>)))"

text \<open>
  Lines 49--58 and the rest. \<open>argv\<close> is \<^verbatim>\<open>sys.argv\<close>, the script's name first.
  \<open>float\<close> is Python's \<^verbatim>\<open>float(s)\<close>, a parameter: \<open>None\<close> where it raises. The six
  conversions run in order and the first that raises ends the script.
\<close>

fun parse_all :: "(string \<Rightarrow> pyfloat option) \<Rightarrow> string list \<Rightarrow> pyfloat list option" where
  "parse_all float [] = Some []"
| "parse_all float (a # as) =
     (case float a of
        None \<Rightarrow> None
      | Some v \<Rightarrow> (case parse_all float as of None \<Rightarrow> None | Some vs \<Rightarrow> Some (v # vs)))"

definition main :: "(string \<Rightarrow> pyfloat option) \<Rightarrow> string list \<Rightarrow> run" where
  "main float argv =
     (if length argv = 7 then
        (case parse_all float (tl argv) of
           Some [o_x_km, o_y_km, o_z_km, x_km, y_km, z_km] \<Rightarrow>
             ecef_to_sez o_x_km o_y_km o_z_km x_km y_km z_km
         | _ \<Rightarrow> \<lparr>stdout = [], ending = Uncaught FloatParseError\<rparr>)
      else \<lparr>stdout = [Text usage], ending = SysExit\<rparr>)"

subsection \<open>Definitions the properties are stated with\<close>

text \<open>The state after \<open>k\<close> passes through the loop's body, whatever the condition says.\<close>

fun loop_iter :: "pyfloat \<Rightarrow> pyfloat \<Rightarrow> nat \<Rightarrow> loop_state \<Rightarrow> py_error + loop_state" where
  "loop_iter o_z_km r 0 s = Inr s"
| "loop_iter o_z_km r (Suc k) s =
     (case loop_body o_z_km r s of
        Inl e \<Rightarrow> Inl e
      | Inr s' \<Rightarrow> loop_iter o_z_km r k s')"

text \<open>
  The initial guess as the specification words it: \<open>asin (origin.z_km / |origin|)\<close>, of the
  origin alone. Only the numerator differs from \<open>lat_init\<close>.
\<close>

definition lat_init_spec :: "pyfloat \<Rightarrow> pyfloat \<Rightarrow> pyfloat \<Rightarrow> py_error + pyfloat" where
  "lat_init_spec o_x_km o_y_km o_z_km =
     (case origin_norm o_x_km o_y_km o_z_km of
        Inl e \<Rightarrow> Inl e
      | Inr n \<Rightarrow> (case py_div o_z_km n of
                    Inl e \<Rightarrow> Inl e
                  | Inr q \<Rightarrow> py_asin q))"

text \<open>
  The specification's rotation matrices: \<open>R_z t\<close> and \<open>R_y t\<close> turn the frame by the angle
  \<open>t\<close> about its third and second axis, and \<open>R_SEZ lat lon\<close> is the product of \<open>R_y\<close> at the co-latitude with \<open>R_z lon\<close>. A
  matrix is its three rows.
\<close>

type_synonym mat3 = "vec3 \<times> vec3 \<times> vec3"

definition R_z :: "pyfloat \<Rightarrow> mat3" where
  "R_z t = ((py_cos t, py_sin t, Fin 0),
            (- py_sin t, py_cos t, Fin 0),
            (Fin 0, Fin 0, Fin 1))"

definition R_y :: "pyfloat \<Rightarrow> mat3" where
  "R_y t = ((py_cos t, Fin 0, - py_sin t),
            (Fin 0, Fin 1, Fin 0),
            (py_sin t, Fin 0, py_cos t))"

fun dot :: "vec3 \<Rightarrow> vec3 \<Rightarrow> pyfloat" where
  "dot (a1, a2, a3) (b1, b2, b3) = a1 * b1 + a2 * b2 + a3 * b3"

fun mat_vec :: "mat3 \<Rightarrow> vec3 \<Rightarrow> vec3" where
  "mat_vec (r1, r2, r3) v = (dot r1 v, dot r2 v, dot r3 v)"

fun col :: "mat3 \<Rightarrow> nat \<Rightarrow> vec3" where
  "col ((a11, a12, a13), (a21, a22, a23), (a31, a32, a33)) j =
     (if j = 0 then (a11, a21, a31) else if j = 1 then (a12, a22, a32) else (a13, a23, a33))"

fun mat_mul :: "mat3 \<Rightarrow> mat3 \<Rightarrow> mat3" where
  "mat_mul (r1, r2, r3) b =
     ((dot r1 (col b 0), dot r1 (col b 1), dot r1 (col b 2)),
      (dot r2 (col b 0), dot r2 (col b 1), dot r2 (col b 2)),
      (dot r3 (col b 0), dot r3 (col b 1), dot r3 (col b 2)))"

definition R_SEZ :: "pyfloat \<Rightarrow> pyfloat \<Rightarrow> mat3" where
  "R_SEZ lat lon = mat_mul (R_y (Fin (pi / 2) - lat)) (R_z lon)"

text \<open>The transpose of a rotation matrix turns the vector instead of the frame.\<close>

definition transpose3 :: "mat3 \<Rightarrow> mat3" where
  "transpose3 m = (col m 0, col m 1, col m 2)"

text \<open>The ranges of the pose's angles; NaN lies in neither.\<close>

fun lat_in_range :: "pyfloat \<Rightarrow> bool" where
  "lat_in_range (Fin a) = (- (pi / 2) < a \<and> a < pi / 2)"
| "lat_in_range NaN = False"

fun lon_in_range :: "pyfloat \<Rightarrow> bool" where
  "lon_in_range (Fin a) = (- pi < a \<and> a \<le> pi)"
| "lon_in_range NaN = False"

section \<open>Properties\<close>

subsection \<open>Evaluation and arithmetic\<close>

lemmas pyfloat_arith = plus_pyfloat_def minus_pyfloat_def times_pyfloat_def uminus_pyfloat_def
  abs_pyfloat_def py_sin_def py_cos_def py_atan_def py_atan2_def py_div_def

text \<open>Squares of the numbers the runs below meet; none leaves the finite floats.\<close>

lemmas pow2_eval = pow2.simps(2) pow_overflow_def pow_underflow_def power2_eq_square

lemma pow2_zero: "pow2 (Fin 0) = Inr (Fin 0)"
  by (simp add: pow2_eval)

lemma pow2_one: "pow2 (Fin 1) = Inr (Fin 1)"
  by (simp add: pow2_eval)

lemma pow2_two: "pow2 (Fin 2) = Inr (Fin 4)"
  by (simp add: pow2_eval)

lemma pow2_E_E: "pow2 E_E = Inr (Fin (0.081819221456 * 0.081819221456))"
  by (simp add: E_E_def pow2_eval)

lemmas run_defs = ecef_to_sez_def solve_def lat_init_def origin_norm_def r_lon_km_def
  loop_init_def loop_cond_def loop_body_def calc_denom_def R_E_KM_def tol_def
  atan2_real_def pow2_zero pow2_one pow2_two pow2_E_E

text \<open>
  The two ends of the range of \<^verbatim>\<open>**\<close>: \<^verbatim>\<open>1e200**2\<close> raises and \<^verbatim>\<open>1e-200**2\<close> is
  \<^verbatim>\<open>0.0\<close>.
\<close>

lemma pow2_1e200: "pow2 (Fin (10 ^ 200)) = Inl OverflowError"
  by (simp add: pow2_eval)

lemma pow2_1e_200: "pow2 (Fin (1 / 10 ^ 200)) = Inr (Fin 0)"
  by (simp add: pow2_eval)

lemma pow2_error: "pow2 a = Inl e \<Longrightarrow> e = OverflowError"
  by (cases a) (auto simp: pow2.simps(2) split: if_splits)

lemma pow2_finite: "pow2 (Fin a) = Inr v \<Longrightarrow> \<exists>b. v = Fin b \<and> 0 \<le> b"
  by (auto simp: pow2.simps(2) split: if_splits)

lemma neg_mul: "(a::pyfloat) * (- b) = (- a) * b"
  by (cases a; cases b) (simp_all add: times_pyfloat_def uminus_pyfloat_def)

lemma tol_value: "tol = Fin (1 / 10 ^ 6)"
  by (simp add: tol_def)

lemma py_asin_error: "py_asin q = Inl e \<Longrightarrow> e = ValueError"
  by (cases q) (auto split: if_splits)

lemma py_div_error: "py_div a b = Inl e \<Longrightarrow> e = ZeroDivisionError"
  by (auto simp: py_div_def split: if_splits)

lemma py_sqrt_error: "py_sqrt a = Inl e \<Longrightarrow> e = ValueError"
  by (cases a) (auto split: if_splits)

text \<open>With six arguments that all parse, the script is \<open>ecef_to_sez\<close> on the parsed floats.\<close>

lemma main_six_parsed:
  assumes "float a1 = Some o_x_km" "float a2 = Some o_y_km" "float a3 = Some o_z_km"
    "float a4 = Some x_km" "float a5 = Some y_km" "float a6 = Some z_km"
  shows "main float [prog, a1, a2, a3, a4, a5, a6] =
           ecef_to_sez o_x_km o_y_km o_z_km x_km y_km z_km"
  using assms by (simp add: main_def)

text \<open>An argument that does not parse ends the script before anything is computed.\<close>

lemma parse_all_None: "float a = None \<Longrightarrow> a \<in> set as \<Longrightarrow> parse_all float as = None"
  by (induction as) (auto split: option.splits)

lemma main_parse_error:
  assumes "length argv = 7" "a \<in> set (tl argv)" "float a = None"
  shows "main float argv = \<lparr>stdout = [], ending = Uncaught FloatParseError\<rparr>"
  using assms(1) parse_all_None [of float a "tl argv"] assms(2,3) by (simp add: main_def)

subsection \<open>The latitude loop\<close>

lemma loop_body_count: "loop_body oz r s = Inr s' \<Longrightarrow> count s' = Suc (count s)"
  by (auto simp: loop_body_def split: sum.splits)

lemma loop_iter_count: "loop_iter oz r k s = Inr s' \<Longrightarrow> count s' = count s + k"
  by (induction k arbitrary: s) (auto split: sum.splits dest: loop_body_count)

lemma loop_body_prev: "loop_body oz r s = Inr s' \<Longrightarrow> prev_lat_rad s' = lat_rad s"
  by (auto simp: loop_body_def split: sum.splits)

text \<open>One more pass is the body applied to the state after the passes so far.\<close>

lemma loop_iter_Suc_end:
  "loop_iter oz r (Suc k) s =
     (case loop_iter oz r k s of Inl e \<Rightarrow> Inl e | Inr a \<Rightarrow> loop_body oz r a)"
proof (induction k arbitrary: s)
  case 0
  show ?case
    by (simp split: sum.splits)
next
  case (Suc k)
  show ?case
  proof (cases "loop_body oz r s")
    case (Inl e)
    then show ?thesis by simp
  next
    case (Inr s1)
    with Suc [of s1] show ?thesis by simp
  qed
qed

lemma loop_cond_count: "loop_cond s \<Longrightarrow> count s < 5"
  by (simp add: loop_cond_def)

lemma loop_cond_init: "loop_cond (loop_init lat0)"
  by (simp add: loop_cond_def loop_init_def)

text \<open>
  A run of the loop that returns is some number of passes of the body: the condition held
  before each of them and fails after the last.
\<close>

lemma lat_loop_returns:
  "lat_loop oz r s = Inr s' \<Longrightarrow>
     \<exists>n. loop_iter oz r n s = Inr s' \<and> \<not> loop_cond s' \<and>
         (\<forall>k<n. \<exists>sk. loop_iter oz r k s = Inr sk \<and> loop_cond sk)"
proof (induction oz r s rule: lat_loop.induct)
  case (1 oz r s)
  show ?case
  proof (cases "loop_cond s")
    case False
    with "1.prems" have "s' = s"
      by (simp add: lat_loop.simps)
    with False have "loop_iter oz r 0 s = Inr s' \<and> \<not> loop_cond s' \<and>
         (\<forall>k<0. \<exists>sk. loop_iter oz r k s = Inr sk \<and> loop_cond sk)"
      by simp
    then show ?thesis by blast
  next
    case True
    with "1.prems" obtain s1 where b: "loop_body oz r s = Inr s1" and l: "lat_loop oz r s1 = Inr s'"
      by (auto simp: lat_loop.simps [of oz r s] split: sum.splits)
    from "1.IH" [OF True b l] obtain n where
      n: "loop_iter oz r n s1 = Inr s'" "\<not> loop_cond s'"
         "\<forall>k<n. \<exists>sk. loop_iter oz r k s1 = Inr sk \<and> loop_cond sk"
      by blast
    have "\<exists>sk. loop_iter oz r k s = Inr sk \<and> loop_cond sk" if "k < Suc n" for k
    proof (cases k)
      case 0
      with True show ?thesis by simp
    next
      case (Suc j)
      with that n(3) b show ?thesis by simp
    qed
    with n(1,2) b have "loop_iter oz r (Suc n) s = Inr s' \<and> \<not> loop_cond s' \<and>
         (\<forall>k<Suc n. \<exists>sk. loop_iter oz r k s = Inr sk \<and> loop_cond sk)"
      by simp
    then show ?thesis by blast
  qed
qed

text \<open>A run of the loop that raises does so in the body, after passes that returned.\<close>

lemma lat_loop_raises:
  "lat_loop oz r s = Inl e \<Longrightarrow>
     \<exists>k sk. loop_iter oz r k s = Inr sk \<and> loop_cond sk \<and> loop_body oz r sk = Inl e"
proof (induction oz r s rule: lat_loop.induct)
  case (1 oz r s)
  from "1.prems" have c: "loop_cond s"
    by (auto simp: lat_loop.simps [of oz r s] split: if_splits)
  show ?case
  proof (cases "loop_body oz r s")
    case (Inl e')
    with "1.prems" c have "e' = e"
      by (simp add: lat_loop.simps [of oz r s])
    with Inl c have "loop_iter oz r 0 s = Inr s \<and> loop_cond s \<and> loop_body oz r s = Inl e"
      by simp
    then show ?thesis by blast
  next
    case (Inr s1)
    with "1.prems" c have "lat_loop oz r s1 = Inl e"
      by (simp add: lat_loop.simps [of oz r s])
    from "1.IH" [OF c Inr this] obtain k sk where
      "loop_iter oz r k s1 = Inr sk" "loop_cond sk" "loop_body oz r sk = Inl e"
      by blast
    with Inr have "loop_iter oz r (Suc k) s = Inr sk \<and> loop_cond sk \<and> loop_body oz r sk = Inl e"
      by simp
    then show ?thesis by blast
  qed
qed

text \<open>
  With finite \<^verbatim>\<open>o_z_km\<close>, \<^verbatim>\<open>r_lon_km\<close> and latitude, a pass of the body leaves an
  arctangent in \<^verbatim>\<open>lat_rad\<close>, and so does the loop once it has made a pass.
\<close>

lemma py_div_finite: "py_div (Fin a) (Fin b) = Inr v \<Longrightarrow> \<exists>c. v = Fin c"
  by (auto simp: py_div_def split: if_splits)

lemma py_sqrt_finite: "py_sqrt (Fin a) = Inr v \<Longrightarrow> \<exists>c. v = Fin c"
  by (auto split: if_splits)

lemma calc_denom_finite: "calc_denom E_E (Fin l) = Inr d \<Longrightarrow> \<exists>c. d = Fin c"
proof -
  assume a: "calc_denom E_E (Fin l) = Inr d"
  then obtain sin2 where s: "pow2 (py_sin (Fin l)) = Inr sin2"
    and d: "py_sqrt (Fin 1 - Fin (0.081819221456 * 0.081819221456) * sin2) = Inr d"
    by (auto simp: calc_denom_def pow2_E_E split: sum.splits)
  from s obtain b where "sin2 = Fin b"
    by (auto simp: py_sin_def dest: pow2_finite)
  with d have "py_sqrt (Fin (1 - 0.081819221456 * 0.081819221456 * b)) = Inr d"
    by (simp add: minus_pyfloat_def times_pyfloat_def)
  then show ?thesis
    by (rule py_sqrt_finite)
qed

lemma loop_body_finite:
  assumes "loop_body (Fin oz) (Fin r) s = Inr s'" "lat_rad s = Fin l"
  shows "\<exists>q. lat_rad s' = Fin (arctan q)"
proof -
  from assms obtain denom c q where
    d: "calc_denom E_E (Fin l) = Inr denom" and
    c: "py_div R_E_KM denom = Inr c" and
    q: "py_div (Fin oz + c * Fin (0.081819221456 * 0.081819221456) * py_sin (Fin l)) (Fin r)
          = Inr q" and
    s: "lat_rad s' = py_atan q"
    by (auto simp: loop_body_def pow2_E_E split: sum.splits)
  from d obtain dv where "denom = Fin dv"
    using calc_denom_finite by blast
  with c obtain cv where "c = Fin cv"
    by (auto simp: R_E_KM_def dest: py_div_finite)
  with q obtain qv where "q = Fin qv"
    by (auto simp: plus_pyfloat_def times_pyfloat_def py_sin_def dest: py_div_finite)
  with s have "lat_rad s' = Fin (arctan qv)"
    by (simp add: py_atan_def)
  then show ?thesis ..
qed

lemma lat_loop_finite:
  "lat_loop oz r s = Inr s' \<Longrightarrow> oz = Fin a \<Longrightarrow> r = Fin b \<Longrightarrow> lat_rad s = Fin l \<Longrightarrow>
     (s' = s \<and> \<not> loop_cond s) \<or> (\<exists>q. lat_rad s' = Fin (arctan q))"
proof (induction oz r s arbitrary: l rule: lat_loop.induct)
  case (1 oz r s)
  show ?case
  proof (cases "loop_cond s")
    case False
    with "1.prems"(1) show ?thesis
      by (simp add: lat_loop.simps [of oz r s])
  next
    case True
    with "1.prems"(1) obtain s1 where b: "loop_body oz r s = Inr s1" and l: "lat_loop oz r s1 = Inr s'"
      by (auto simp: lat_loop.simps [of oz r s] split: sum.splits)
    from b "1.prems"(2,3,4) obtain q where q: "lat_rad s1 = Fin (arctan q)"
      using loop_body_finite [of _ _ s s1 l] by blast
    from "1.IH" [OF True b l "1.prems"(2,3) q] q show ?thesis
      by auto
  qed
qed

text \<open>On the polar axis the first pass raises.\<close>

lemma loop_body_r_zero:
  "\<exists>e. loop_body oz (Fin 0) s = Inl e \<and>
       (e = ZeroDivisionError \<or> e = ValueError \<or> e = OverflowError)"
  by (auto simp: loop_body_def calc_denom_def py_div_def split: sum.splits
        dest: py_sqrt_error pow2_error)

lemma lat_loop_r_zero:
  "\<exists>e. lat_loop oz (Fin 0) (loop_init lat0) = Inl e \<and>
       (e = ZeroDivisionError \<or> e = ValueError \<or> e = OverflowError)"
proof -
  obtain e where "loop_body oz (Fin 0) (loop_init lat0) = Inl e"
      "e = ZeroDivisionError \<or> e = ValueError \<or> e = OverflowError"
    using loop_body_r_zero by blast
  with loop_cond_init [of lat0] show ?thesis
    by (simp add: lat_loop.simps [of oz "Fin 0" "loop_init lat0"])
qed

text \<open>The loop at the origin \<open>(1, 0, 0)\<close> with the guess \<open>0\<close>: one pass.\<close>

lemma lat_loop_equator: "lat_loop (Fin 0) (Fin 1) (loop_init (Fin 0)) =
   Inr \<lparr>lat_rad = Fin 0, prev_lat_rad = Fin 0, c_E = Fin 6378.137, count = 1\<rparr>"
  by (simp add: lat_loop.simps run_defs pyfloat_arith)

text \<open>The loop from the guess \<open>\<pi>\<close>, and from the guess NaN.\<close>

lemma tol_less_pi: "1 / 10 ^ 6 < pi"
  using pi_ge_two by simp

lemma lat_loop_two_passes: "lat_loop (Fin 0) (Fin 1) (loop_init (Fin pi)) =
   Inr \<lparr>lat_rad = Fin 0, prev_lat_rad = Fin 0, c_E = Fin 6378.137, count = 2\<rparr>"
  using tol_less_pi by (simp add: lat_loop.simps run_defs pyfloat_arith)

lemma lat_loop_five_passes: "lat_loop (Fin 0) (Fin 1) (loop_init NaN) =
   Inr \<lparr>lat_rad = NaN, prev_lat_rad = NaN, c_E = NaN, count = 5\<rparr>"
  by (simp add: lat_loop.simps run_defs pyfloat_arith)

subsection \<open>The solver\<close>

lemma lat_init_norm_zero:
  "origin_norm ox oy oz = Inr (Fin 0) \<Longrightarrow> lat_init zv ox oy oz = Inl ZeroDivisionError"
  by (simp add: lat_init_def py_div_def)

lemma origin_norm_error: "origin_norm ox oy oz = Inl e \<Longrightarrow> e = ValueError \<or> e = OverflowError"
  by (auto simp: origin_norm_def split: sum.splits dest: py_sqrt_error pow2_error)

lemma lat_init_error:
  "lat_init zv ox oy oz = Inl e \<Longrightarrow>
     e = ZeroDivisionError \<or> e = ValueError \<or> e = OverflowError"
  by (auto simp: lat_init_def split: sum.splits
        dest: origin_norm_error py_div_error py_asin_error)

lemma lat_init_finite:
  "lat_init (Fin zv) (Fin ox) (Fin oy) (Fin oz) = Inr l \<Longrightarrow> \<exists>a. l = Fin a"
  by (auto simp: lat_init_def origin_norm_def pyfloat_arith split: sum.splits if_splits
        dest!: pow2_finite)

lemma r_lon_km_finite:
  "r_lon_km (Fin ox) (Fin oy) = Inr r \<Longrightarrow> \<exists>b. r = Fin b"
  by (auto simp: r_lon_km_def pyfloat_arith split: sum.splits if_splits dest!: pow2_finite)

lemma solve_norm_zero:
  "origin_norm ox oy oz = Inr (Fin 0) \<Longrightarrow> solve zv ox oy oz = Inl ZeroDivisionError"
  by (simp add: solve_def lat_init_norm_zero)

lemma solve_degenerate:
  assumes "origin_norm ox oy oz = Inr (Fin 0) \<or> r_lon_km ox oy = Inr (Fin 0)"
  shows "\<exists>e. solve zv ox oy oz = Inl e \<and>
           (e = ZeroDivisionError \<or> e = ValueError \<or> e = OverflowError)"
proof (cases "lat_init zv ox oy oz")
  case (Inl e)
  with lat_init_error [OF Inl] show ?thesis
    by (simp add: solve_def)
next
  case (Inr lat0)
  with assms lat_init_norm_zero have r: "r_lon_km ox oy = Inr (Fin 0)"
    by fastforce
  obtain e where "lat_loop oz (Fin 0) (loop_init lat0) = Inl e"
      "e = ZeroDivisionError \<or> e = ValueError \<or> e = OverflowError"
    using lat_loop_r_zero by blast
  with Inr r show ?thesis
    by (simp add: solve_def)
qed

lemma solve_equator: "solve (Fin 0) (Fin 1) (Fin 0) (Fin 0) =
    Inr \<lparr>pose_lat = Fin 0, pose_lon = Fin 0, pose_hae = Fin (- 6377.137)\<rparr>"
  by (simp add: lat_loop.simps run_defs pyfloat_arith)

text \<open>
  The origin \<open>(0, 0, 10\<^sup>2\<^sup>0\<^sup>0)\<close> on the polar axis: \<^verbatim>\<open>o_z_km**2\<close> raises on line 72. The
  origin \<open>(10\<^sup>-\<^sup>2\<^sup>0\<^sup>0, 0, 0)\<close>: the square underflows, the norm is \<open>0\<close> and line 72
  divides by it.
\<close>

lemma run_polar_overflow:
  "r_lon_km (Fin 0) (Fin 0) = Inr (Fin 0) \<and>
   ecef_to_sez (Fin 0) (Fin 0) (Fin (10 ^ 200)) (Fin 1) (Fin 1) (Fin 1) =
     \<lparr>stdout = [], ending = Uncaught OverflowError\<rparr>"
proof -
  have "origin_norm (Fin 0) (Fin 0) (Fin (10 ^ 200)) = Inl OverflowError"
    by (simp only: origin_norm_def pow2_zero pow2_1e200 sum.case)
  then have "solve z_vec_km (Fin 0) (Fin 0) (Fin (10 ^ 200)) = Inl OverflowError" for z_vec_km
    by (simp add: solve_def lat_init_def)
  moreover have "r_lon_km (Fin 0) (Fin 0) = Inr (Fin 0)"
    by (simp add: r_lon_km_def pow2_zero pyfloat_arith)
  ultimately show ?thesis
    by (simp add: ecef_to_sez_def)
qed

lemma run_underflow:
  "origin_norm (Fin (1 / 10 ^ 200)) (Fin 0) (Fin 0) = Inr (Fin 0) \<and>
   ecef_to_sez (Fin (1 / 10 ^ 200)) (Fin 0) (Fin 0) (Fin 1) (Fin 1) (Fin 1) =
     \<lparr>stdout = [], ending = Uncaught ZeroDivisionError\<rparr>"
proof -
  have "origin_norm (Fin (1 / 10 ^ 200)) (Fin 0) (Fin 0) = py_sqrt (Fin 0 + Fin 0 + Fin 0)"
    by (simp only: origin_norm_def pow2_zero pow2_1e_200 sum.case)
  then have n: "origin_norm (Fin (1 / 10 ^ 200)) (Fin 0) (Fin 0) = Inr (Fin 0)"
    by (simp add: plus_pyfloat_def)
  from solve_norm_zero [OF n] have
    "solve z_vec_km (Fin (1 / 10 ^ 200)) (Fin 0) (Fin 0) = Inl ZeroDivisionError" for z_vec_km .
  with n show ?thesis
    by (simp add: ecef_to_sez_def)
qed

lemma atan2_real_range: "- pi < atan2_real y x \<and> atan2_real y x \<le> pi"
proof -
  have lb: "- (pi / 2) < arctan (y / x)" and ub: "arctan (y / x) < pi / 2"
    by (rule arctan_lbound, rule arctan_ubound)
  consider "0 < x" | "x < 0" "0 \<le> y" | "x < 0" "y < 0" | "x = 0"
    by linarith
  then show ?thesis
  proof cases
    case 1
    then have "atan2_real y x = arctan (y / x)"
      by (simp add: atan2_real_def)
    with lb ub pi_gt_zero show ?thesis
      by linarith
  next
    case 2
    then have "y / x \<le> 0"
      by (simp add: divide_nonneg_neg)
    then have "arctan (y / x) \<le> 0"
      by simp
    moreover from 2 have "atan2_real y x = arctan (y / x) + pi"
      by (simp add: atan2_real_def)
    ultimately show ?thesis
      using lb pi_gt_zero by linarith
  next
    case 3
    then have "0 < y / x"
      by (simp add: divide_neg_neg)
    then have "0 < arctan (y / x)"
      by simp
    moreover from 3 have "atan2_real y x = arctan (y / x) - pi"
      by (simp add: atan2_real_def)
    ultimately show ?thesis
      using ub pi_gt_zero by linarith
  next
    case 4
    then have "atan2_real y x = pi / 2 \<or> atan2_real y x = - (pi / 2) \<or> atan2_real y x = 0"
      by (simp add: atan2_real_def)
    with pi_gt_zero show ?thesis
      by linarith
  qed
qed

subsection \<open>The rotation against the matrix product\<close>

text \<open>
  On finite vectors and angles the script's \<^verbatim>\<open>e_km\<close> and \<^verbatim>\<open>z_km\<close> are the second and
  third rows of \<open>R_SEZ\<close>.
\<close>

lemma rotate_e_z_matrix:
  "snd (rotate (Fin x, Fin y, Fin z) \<lparr>pose_lat = Fin lat, pose_lon = Fin lon, pose_hae = h\<rparr>) =
   snd (mat_vec (R_SEZ (Fin lat) (Fin lon)) (Fin x, Fin y, Fin z))"
  by (simp add: R_SEZ_def R_y_def R_z_def pyfloat_arith cos_diff sin_diff algebra_simps)

text \<open>The first row of \<open>R_SEZ\<close>: every term of \<open>s\<close> but the last carries \<open>sin lat\<close>.\<close>

lemma R_SEZ_s_row:
  "fst (mat_vec (R_SEZ (Fin lat) (Fin lon)) (Fin x, Fin y, Fin z)) =
   Fin ((x * cos lon + y * sin lon) * sin lat - z * cos lat)"
  by (simp add: R_SEZ_def R_y_def R_z_def pyfloat_arith cos_diff sin_diff algebra_simps)

text \<open>
  Read with the other handedness (the matrices that turn the vector), the product sends
  the difference \<open>(1, 0, 0)\<close> at latitude and longitude \<open>0\<close> to \<open>(0, 0, -1)\<close>: its
  first component is \<open>0\<close> under either reading.
\<close>

lemma R_SEZ_other_handedness:
  "mat_vec (mat_mul (transpose3 (R_y (Fin (pi / 2) - Fin 0))) (transpose3 (R_z (Fin 0))))
     (Fin 1, Fin 0, Fin 0) = (Fin 0, Fin 0, Fin (- 1))"
  by (simp add: transpose3_def R_y_def R_z_def pyfloat_arith)

section \<open>The claims\<close>

text \<open>
  C1. The initial latitude guess is \<open>asin (origin.z_km / |origin|)\<close> and depends on the
  origin alone. Line 72 divides \<^verbatim>\<open>z_vec_km\<close>, the z component of target minus origin, by
  the origin's norm instead. For the origin \<open>(1, 0, 0)\<close> the specified guess is \<open>0\<close>; with
  the target \<open>(1, 0, 1)\<close> the script starts from \<open>\<pi>/2\<close>, with the target \<open>(1, 0, 0)\<close>
  from \<open>0\<close>: the guess follows the target.
\<close>

theorem lat_init_reads_target:
  "lat_init_spec (Fin 1) (Fin 0) (Fin 0) = Inr (Fin 0) \<and>
   lat_init (snd (snd (difference (Fin 1, Fin 0, Fin 1) (Fin 1, Fin 0, Fin 0))))
      (Fin 1) (Fin 0) (Fin 0) = Inr (Fin (pi / 2)) \<and>
   lat_init (snd (snd (difference (Fin 1, Fin 0, Fin 0) (Fin 1, Fin 0, Fin 0))))
      (Fin 1) (Fin 0) (Fin 0) = Inr (Fin 0)"
  by (simp add: lat_init_spec_def run_defs pyfloat_arith)

text \<open>
  C2. For every difference vector and pose the rotation returns
  \<open>s = dx\<cdot>cos lon + dy\<cdot>sin lon\<cdot>sin lat - dz\<cdot>cos lat\<close>,
  \<open>e = -dx\<cdot>sin lon + dy\<cdot>cos lon\<close> and
  \<open>z = (dx\<cdot>cos lon + dy\<cdot>sin lon)\<cdot>cos lat + dz\<cdot>sin lat\<close>, NaN components included.
\<close>

theorem rotate_components:
  "rotate (dx, dy, dz) \<lparr>pose_lat = lat, pose_lon = lon, pose_hae = hae\<rparr> =
     (dx * py_cos lon + dy * py_sin lon * py_sin lat - dz * py_cos lat,
      (- dx) * py_sin lon + dy * py_cos lon,
      (dx * py_cos lon + dy * py_sin lon) * py_cos lat + dz * py_sin lat)"
  by (simp add: neg_mul)

text \<open>
  C3. The output of the rotation is the matrix product \<open>R_SEZ\<close> applied to the
  difference vector. The script's \<^verbatim>\<open>s_km\<close> lacks the parentheses its \<^verbatim>\<open>z_km\<close> has, so
  \<open>sin lat\<close> multiplies the \<open>y\<close> term only. For the origin \<open>(1, 0, 0)\<close> and the target
  \<open>(2, 0, 0)\<close> the script prints \<open>(1, 0, 1)\<close>; the pose there has latitude and longitude
  \<open>0\<close>, and the matrix product of the difference \<open>(1, 0, 0)\<close> is \<open>(0, 0, 1)\<close>.
\<close>

theorem rotate_not_matrix_product:
  "ecef_to_sez (Fin 1) (Fin 0) (Fin 0) (Fin 2) (Fin 0) (Fin 0) =
     \<lparr>stdout = [FloatStr (Fin 1), FloatStr (Fin 0), FloatStr (Fin 1)], ending = Completed\<rparr> \<and>
   solve (Fin 0) (Fin 1) (Fin 0) (Fin 0) =
     Inr \<lparr>pose_lat = Fin 0, pose_lon = Fin 0, pose_hae = Fin (- 6377.137)\<rparr> \<and>
   rotate (Fin 1, Fin 0, Fin 0) \<lparr>pose_lat = Fin 0, pose_lon = Fin 0, pose_hae = Fin (- 6377.137)\<rparr>
     = (Fin 1, Fin 0, Fin 1) \<and>
   mat_vec (R_SEZ (Fin 0) (Fin 0)) (Fin 1, Fin 0, Fin 0) = (Fin 0, Fin 0, Fin 1)"
  by (simp add: lat_loop.simps run_defs R_SEZ_def R_y_def R_z_def pyfloat_arith)

text \<open>
  C4. With an argument count other than six the script prints the usage line and nothing
  else, exits through \<^verbatim>\<open>sys.exit()\<close> with status 0, and neither parses nor computes:
  the run is the same whatever the arguments are and whatever \<^verbatim>\<open>float\<close> would do with them.
\<close>

theorem usage_on_wrong_count:
  "length args \<noteq> 6 \<Longrightarrow>
     main float (prog # args) = \<lparr>stdout = [Text usage], ending = SysExit\<rparr> \<and>
     exit_status (ending (main float (prog # args))) = 0 \<and>
     filter is_numeric (stdout (main float (prog # args))) = []"
  by (simp add: main_def)

theorem usage_on_wrong_count_witness:
  "length [''1'', ''2'', ''3'', ''4'', ''5''] \<noteq> 6 \<and>
   main (\<lambda>s. None) (''ecef_to_sez.py'' # [''1'', ''2'', ''3'', ''4'', ''5''])
     = \<lparr>stdout = [Text usage], ending = SysExit\<rparr> \<and>
   exit_status (ending (main (\<lambda>s. None)
     (''ecef_to_sez.py'' # [''1'', ''2'', ''3'', ''4'', ''5'']))) = 0 \<and>
   filter is_numeric (stdout (main (\<lambda>s. None)
     (''ecef_to_sez.py'' # [''1'', ''2'', ''3'', ''4'', ''5'']))) = []"
  using usage_on_wrong_count
    [of "[''1'', ''2'', ''3'', ''4'', ''5'']" "\<lambda>s. None" "''ecef_to_sez.py''"]
  by simp

text \<open>
  C5, as stated: an origin at the Earth's centre or on the polar axis gives NaN or Inf
  outputs and no error. At the origin \<open>(0, 0, 0)\<close> the norm is \<open>0\<close> and line 72 divides by
  it: the script ends with \<^verbatim>\<open>ZeroDivisionError\<close> and prints nothing.
\<close>

theorem degenerate_origin_counterexample:
  "origin_norm (Fin 0) (Fin 0) (Fin 0) = Inr (Fin 0) \<and>
   ecef_to_sez (Fin 0) (Fin 0) (Fin 0) (Fin 1) (Fin 1) (Fin 1) =
     \<lparr>stdout = [], ending = Uncaught ZeroDivisionError\<rparr>"
  by (simp add: run_defs pyfloat_arith)

text \<open>
  C5, amended. Whenever the origin's norm or \<^verbatim>\<open>r_lon_km\<close> evaluates to \<open>0\<close> (the Earth's
  centre, the polar axis, or components whose squares underflow to \<open>0\<close>), the script does
  not complete, for any target: it ends with an uncaught \<^verbatim>\<open>ZeroDivisionError\<close>,
  \<^verbatim>\<open>ValueError\<close> or \<^verbatim>\<open>OverflowError\<close> and prints nothing. When the norm evaluates to \<open>0\<close>
  the exception is the \<^verbatim>\<open>ZeroDivisionError\<close> of line 72.
\<close>

theorem degenerate_origin_raises:
  assumes "origin_norm o_x_km o_y_km o_z_km = Inr (Fin 0) \<or> r_lon_km o_x_km o_y_km = Inr (Fin 0)"
  shows "(ecef_to_sez o_x_km o_y_km o_z_km x_km y_km z_km =
            \<lparr>stdout = [], ending = Uncaught ZeroDivisionError\<rparr> \<or>
          ecef_to_sez o_x_km o_y_km o_z_km x_km y_km z_km =
            \<lparr>stdout = [], ending = Uncaught ValueError\<rparr> \<or>
          ecef_to_sez o_x_km o_y_km o_z_km x_km y_km z_km =
            \<lparr>stdout = [], ending = Uncaught OverflowError\<rparr>) \<and>
         (origin_norm o_x_km o_y_km o_z_km = Inr (Fin 0) \<longrightarrow>
          ecef_to_sez o_x_km o_y_km o_z_km x_km y_km z_km =
            \<lparr>stdout = [], ending = Uncaught ZeroDivisionError\<rparr>)"
proof -
  obtain e where "solve (z_km - o_z_km) o_x_km o_y_km o_z_km = Inl e"
      "e = ZeroDivisionError \<or> e = ValueError \<or> e = OverflowError"
    using solve_degenerate [OF assms] by blast
  then have "ecef_to_sez o_x_km o_y_km o_z_km x_km y_km z_km =
            \<lparr>stdout = [], ending = Uncaught ZeroDivisionError\<rparr> \<or>
          ecef_to_sez o_x_km o_y_km o_z_km x_km y_km z_km =
            \<lparr>stdout = [], ending = Uncaught ValueError\<rparr> \<or>
          ecef_to_sez o_x_km o_y_km o_z_km x_km y_km z_km =
            \<lparr>stdout = [], ending = Uncaught OverflowError\<rparr>"
    by (auto simp: ecef_to_sez_def)
  moreover have "ecef_to_sez o_x_km o_y_km o_z_km x_km y_km z_km =
            \<lparr>stdout = [], ending = Uncaught ZeroDivisionError\<rparr>"
    if "origin_norm o_x_km o_y_km o_z_km = Inr (Fin 0)"
    using solve_norm_zero [OF that] by (simp add: ecef_to_sez_def)
  ultimately show ?thesis
    by blast
qed

theorem degenerate_origin_raises_witness:
  "(origin_norm (Fin 0) (Fin 0) (Fin 2) = Inr (Fin 0) \<or> r_lon_km (Fin 0) (Fin 0) = Inr (Fin 0)) \<and>
   (ecef_to_sez (Fin 0) (Fin 0) (Fin 2) (Fin 1) (Fin 1) (Fin 1) =
           \<lparr>stdout = [], ending = Uncaught ZeroDivisionError\<rparr> \<or>
    ecef_to_sez (Fin 0) (Fin 0) (Fin 2) (Fin 1) (Fin 1) (Fin 1) =
           \<lparr>stdout = [], ending = Uncaught ValueError\<rparr> \<or>
    ecef_to_sez (Fin 0) (Fin 0) (Fin 2) (Fin 1) (Fin 1) (Fin 1) =
           \<lparr>stdout = [], ending = Uncaught OverflowError\<rparr>) \<and>
   origin_norm (Fin 0) (Fin 0) (Fin 0) = Inr (Fin 0) \<and>
   ecef_to_sez (Fin 0) (Fin 0) (Fin 0) (Fin 1) (Fin 1) (Fin 2) =
           \<lparr>stdout = [], ending = Uncaught ZeroDivisionError\<rparr>"
proof -
  have h: "origin_norm (Fin 0) (Fin 0) (Fin 2) = Inr (Fin 0) \<or> r_lon_km (Fin 0) (Fin 0) = Inr (Fin 0)"
    by (simp add: r_lon_km_def pow2_zero pyfloat_arith)
  have n: "origin_norm (Fin 0) (Fin 0) (Fin 0) = Inr (Fin 0)"
    by (simp add: origin_norm_def pow2_zero pyfloat_arith)
  then have h0: "origin_norm (Fin 0) (Fin 0) (Fin 0) = Inr (Fin 0) \<or>
      r_lon_km (Fin 0) (Fin 0) = Inr (Fin 0)" ..
  from h n degenerate_origin_raises [OF h, of "Fin 1" "Fin 1" "Fin 1"]
    degenerate_origin_raises [OF h0, of "Fin 1" "Fin 1" "Fin 2"]
  show ?thesis
    by blast
qed

text \<open>
  C6. From every initial latitude, \<^verbatim>\<open>o_z_km\<close> and \<^verbatim>\<open>r_lon_km\<close>, the loop's condition holds
  before the first pass (the previous iterate is NaN) and the threshold \<^verbatim>\<open>10e-7\<close> is
  \<open>10\<^sup>-\<^sup>6\<close>. The iterates are the values of \<^verbatim>\<open>lat_rad\<close>: \<open>a\<close> after \<open>k\<close> passes and \<open>b\<close>
  after \<open>k + 1\<close>, where \<open>b\<close> comes from \<open>a\<close> by the loop's body and \<^verbatim>\<open>prev_lat_rad\<close>
  then holds the iterate of \<open>a\<close>. Either the loop returns after \<open>n\<close> passes with
  \<open>1 \<le> n \<le> 5\<close>, every pass before the last having left two successive iterates more
  than the threshold apart (or the earlier one NaN), and the last pass having reached
  \<open>n = 5\<close> or left two successive iterates that are not more than the threshold apart;
  or the body raises in one of the first five passes, the passes before it having
  returned.
\<close>

theorem lat_loop_passes:
  "loop_cond (loop_init lat0) \<and> tol = Fin (1 / 10 ^ 6) \<and>
   ((\<exists>s. lat_loop oz r (loop_init lat0) = Inr s \<and>
         1 \<le> count s \<and> count s \<le> 5 \<and>
         loop_iter oz r (count s) (loop_init lat0) = Inr s \<and>
         (\<forall>k<count s. \<exists>a b.
            loop_iter oz r k (loop_init lat0) = Inr a \<and>
            loop_iter oz r (Suc k) (loop_init lat0) = Inr b \<and>
            loop_body oz r a = Inr b \<and>
            prev_lat_rad b = lat_rad a \<and> count b = Suc k \<and>
            (if Suc k < count s
             then isnan (lat_rad a) \<or> py_gt \<bar>lat_rad b - lat_rad a\<bar> (Fin (1 / 10 ^ 6))
             else count s = 5 \<or>
                  \<not> isnan (lat_rad a) \<and>
                  \<not> py_gt \<bar>lat_rad b - lat_rad a\<bar> (Fin (1 / 10 ^ 6)))))
    \<or>
    (\<exists>e k sk. lat_loop oz r (loop_init lat0) = Inl e \<and> k < 5 \<and>
         loop_iter oz r k (loop_init lat0) = Inr sk \<and> loop_cond sk \<and>
         loop_body oz r sk = Inl e))"
proof -
  let ?i = "loop_init lat0"
  have c0: "count ?i = 0"
    by (simp add: loop_init_def)
  have "(\<exists>s. lat_loop oz r ?i = Inr s \<and>
         1 \<le> count s \<and> count s \<le> 5 \<and>
         loop_iter oz r (count s) ?i = Inr s \<and>
         (\<forall>k<count s. \<exists>a b.
            loop_iter oz r k ?i = Inr a \<and>
            loop_iter oz r (Suc k) ?i = Inr b \<and>
            loop_body oz r a = Inr b \<and>
            prev_lat_rad b = lat_rad a \<and> count b = Suc k \<and>
            (if Suc k < count s
             then isnan (lat_rad a) \<or> py_gt \<bar>lat_rad b - lat_rad a\<bar> (Fin (1 / 10 ^ 6))
             else count s = 5 \<or>
                  \<not> isnan (lat_rad a) \<and>
                  \<not> py_gt \<bar>lat_rad b - lat_rad a\<bar> (Fin (1 / 10 ^ 6)))))
    \<or>
    (\<exists>e k sk. lat_loop oz r ?i = Inl e \<and> k < 5 \<and>
         loop_iter oz r k ?i = Inr sk \<and> loop_cond sk \<and> loop_body oz r sk = Inl e)"
  proof (cases "lat_loop oz r ?i")
    case (Inr s)
    from lat_loop_returns [OF Inr] obtain n where
      n: "loop_iter oz r n ?i = Inr s" "\<not> loop_cond s"
         "\<forall>k<n. \<exists>sk. loop_iter oz r k ?i = Inr sk \<and> loop_cond sk"
      by blast
    from loop_iter_count [OF n(1)] c0 have cn: "count s = n"
      by simp
    have "n \<noteq> 0"
    proof
      assume "n = 0"
      with n(1) have "s = ?i" by simp
      with n(2) loop_cond_init [of lat0] show False by simp
    qed
    then have lo: "1 \<le> count s"
      using cn by simp
    have hi: "count s \<le> 5"
    proof -
      from \<open>n \<noteq> 0\<close> obtain j where j: "n = Suc j"
        by (cases n) auto
      with n(3) obtain sj where sj: "loop_iter oz r j ?i = Inr sj" "loop_cond sj"
        by blast
      from loop_iter_count [OF sj(1)] c0 have "count sj = j" by simp
      with loop_cond_count [OF sj(2)] j cn show ?thesis by simp
    qed
    have pass: "\<exists>a b.
            loop_iter oz r k ?i = Inr a \<and>
            loop_iter oz r (Suc k) ?i = Inr b \<and>
            loop_body oz r a = Inr b \<and>
            prev_lat_rad b = lat_rad a \<and> count b = Suc k \<and>
            (if Suc k < count s
             then isnan (lat_rad a) \<or> py_gt \<bar>lat_rad b - lat_rad a\<bar> (Fin (1 / 10 ^ 6))
             else count s = 5 \<or>
                  \<not> isnan (lat_rad a) \<and>
                  \<not> py_gt \<bar>lat_rad b - lat_rad a\<bar> (Fin (1 / 10 ^ 6)))"
      if k: "k < count s" for k
    proof -
      from k cn n(3) obtain a where a: "loop_iter oz r k ?i = Inr a"
        by blast
      have "\<exists>b. loop_iter oz r (Suc k) ?i = Inr b \<and> (loop_cond b \<longleftrightarrow> Suc k < count s)"
      proof (cases "Suc k < n")
        case True
        with n(3) cn show ?thesis by auto
      next
        case False
        with k cn have "Suc k = n" by simp
        with n(1,2) cn show ?thesis by auto
      qed
      then obtain b where b: "loop_iter oz r (Suc k) ?i = Inr b"
        and cb: "loop_cond b \<longleftrightarrow> Suc k < count s"
        by blast
      from b have "(case loop_iter oz r k ?i of Inl e \<Rightarrow> Inl e | Inr a \<Rightarrow> loop_body oz r a)
          = Inr b"
        by (simp only: loop_iter_Suc_end)
      with a have body: "loop_body oz r a = Inr b"
        by simp
      have prev: "prev_lat_rad b = lat_rad a"
        by (rule loop_body_prev [OF body])
      from loop_iter_count [OF b] c0 have cnt: "count b = Suc k"
        by simp
      have "if Suc k < count s
             then isnan (lat_rad a) \<or> py_gt \<bar>lat_rad b - lat_rad a\<bar> (Fin (1 / 10 ^ 6))
             else count s = 5 \<or>
                  \<not> isnan (lat_rad a) \<and>
                  \<not> py_gt \<bar>lat_rad b - lat_rad a\<bar> (Fin (1 / 10 ^ 6))"
      proof (cases "Suc k < count s")
        case True
        with cb have "loop_cond b" by simp
        with True prev show ?thesis
          by (simp add: loop_cond_def tol_value)
      next
        case False
        with k have "count b = count s"
          using cnt by simp
        moreover from False cb have "\<not> loop_cond b" by simp
        ultimately show ?thesis
          using False prev hi by (auto simp: loop_cond_def tol_value)
      qed
      with a b body prev cnt show ?thesis
        by blast
    qed
    from Inr lo hi n(1) cn pass show ?thesis
      by blast
  next
    case (Inl e)
    from lat_loop_raises [OF Inl] obtain k sk where
      k: "loop_iter oz r k ?i = Inr sk" "loop_cond sk" "loop_body oz r sk = Inl e"
      by blast
    from loop_iter_count [OF k(1)] c0 loop_cond_count [OF k(2)] have "k < 5"
      by simp
    with Inl k show ?thesis by blast
  qed
  with loop_cond_init [of lat0] tol_value show ?thesis by blast
qed

text \<open>
  Two runs of the loop. From the guess \<open>\<pi>\<close> with \<^verbatim>\<open>o_z_km = 0\<close> the iterates are
  \<open>\<pi>, 0, 0\<close>: the first pass leaves them \<open>\<pi>\<close> apart, the second leaves them equal, and
  the loop returns after two passes. From the guess NaN every iterate is NaN and the loop
  returns after five.
\<close>

theorem lat_loop_passes_witness:
  "(\<exists>s. lat_loop (Fin 0) (Fin 1) (loop_init (Fin pi)) = Inr s \<and> count s = 2 \<and>
         loop_iter (Fin 0) (Fin 1) (count s) (loop_init (Fin pi)) = Inr s \<and>
         (\<forall>k<count s. \<exists>a b.
            loop_iter (Fin 0) (Fin 1) k (loop_init (Fin pi)) = Inr a \<and>
            loop_iter (Fin 0) (Fin 1) (Suc k) (loop_init (Fin pi)) = Inr b \<and>
            loop_body (Fin 0) (Fin 1) a = Inr b \<and>
            prev_lat_rad b = lat_rad a \<and> count b = Suc k \<and>
            (if Suc k < count s
             then isnan (lat_rad a) \<or> py_gt \<bar>lat_rad b - lat_rad a\<bar> (Fin (1 / 10 ^ 6))
             else count s = 5 \<or>
                  \<not> isnan (lat_rad a) \<and>
                  \<not> py_gt \<bar>lat_rad b - lat_rad a\<bar> (Fin (1 / 10 ^ 6))))) \<and>
   (\<exists>s. lat_loop (Fin 0) (Fin 1) (loop_init NaN) = Inr s \<and> count s = 5 \<and>
         loop_iter (Fin 0) (Fin 1) (count s) (loop_init NaN) = Inr s \<and>
         (\<forall>k<count s. \<exists>a b.
            loop_iter (Fin 0) (Fin 1) k (loop_init NaN) = Inr a \<and>
            loop_iter (Fin 0) (Fin 1) (Suc k) (loop_init NaN) = Inr b \<and>
            loop_body (Fin 0) (Fin 1) a = Inr b \<and>
            prev_lat_rad b = lat_rad a \<and> count b = Suc k \<and>
            (if Suc k < count s
             then isnan (lat_rad a) \<or> py_gt \<bar>lat_rad b - lat_rad a\<bar> (Fin (1 / 10 ^ 6))
             else count s = 5 \<or>
                  \<not> isnan (lat_rad a) \<and>
                  \<not> py_gt \<bar>lat_rad b - lat_rad a\<bar> (Fin (1 / 10 ^ 6)))))"
proof -
  have "\<not> (\<exists>e k sk. lat_loop (Fin 0) (Fin 1) (loop_init (Fin pi)) = Inl e \<and> k < 5 \<and>
         loop_iter (Fin 0) (Fin 1) k (loop_init (Fin pi)) = Inr sk \<and> loop_cond sk \<and>
         loop_body (Fin 0) (Fin 1) sk = Inl e)"
    by (simp add: lat_loop_two_passes)
  with lat_loop_passes [of "Fin pi" "Fin 0" "Fin 1"] lat_loop_two_passes
  have first: "\<exists>s. lat_loop (Fin 0) (Fin 1) (loop_init (Fin pi)) = Inr s \<and> count s = 2 \<and>
         loop_iter (Fin 0) (Fin 1) (count s) (loop_init (Fin pi)) = Inr s \<and>
         (\<forall>k<count s. \<exists>a b.
            loop_iter (Fin 0) (Fin 1) k (loop_init (Fin pi)) = Inr a \<and>
            loop_iter (Fin 0) (Fin 1) (Suc k) (loop_init (Fin pi)) = Inr b \<and>
            loop_body (Fin 0) (Fin 1) a = Inr b \<and>
            prev_lat_rad b = lat_rad a \<and> count b = Suc k \<and>
            (if Suc k < count s
             then isnan (lat_rad a) \<or> py_gt \<bar>lat_rad b - lat_rad a\<bar> (Fin (1 / 10 ^ 6))
             else count s = 5 \<or>
                  \<not> isnan (lat_rad a) \<and>
                  \<not> py_gt \<bar>lat_rad b - lat_rad a\<bar> (Fin (1 / 10 ^ 6))))"
    by auto
  have "\<not> (\<exists>e k sk. lat_loop (Fin 0) (Fin 1) (loop_init NaN) = Inl e \<and> k < 5 \<and>
         loop_iter (Fin 0) (Fin 1) k (loop_init NaN) = Inr sk \<and> loop_cond sk \<and>
         loop_body (Fin 0) (Fin 1) sk = Inl e)"
    by (simp add: lat_loop_five_passes)
  with lat_loop_passes [of NaN "Fin 0" "Fin 1"] lat_loop_five_passes
  have "\<exists>s. lat_loop (Fin 0) (Fin 1) (loop_init NaN) = Inr s \<and> count s = 5 \<and>
         loop_iter (Fin 0) (Fin 1) (count s) (loop_init NaN) = Inr s \<and>
         (\<forall>k<count s. \<exists>a b.
            loop_iter (Fin 0) (Fin 1) k (loop_init NaN) = Inr a \<and>
            loop_iter (Fin 0) (Fin 1) (Suc k) (loop_init NaN) = Inr b \<and>
            loop_body (Fin 0) (Fin 1) a = Inr b \<and>
            prev_lat_rad b = lat_rad a \<and> count b = Suc k \<and>
            (if Suc k < count s
             then isnan (lat_rad a) \<or> py_gt \<bar>lat_rad b - lat_rad a\<bar> (Fin (1 / 10 ^ 6))
             else count s = 5 \<or>
                  \<not> isnan (lat_rad a) \<and>
                  \<not> py_gt \<bar>lat_rad b - lat_rad a\<bar> (Fin (1 / 10 ^ 6))))"
    by auto
  with first show ?thesis ..
qed

text \<open>
  C7. For every origin with finite components, the difference of the origin with itself is
  the zero vector.
\<close>

theorem difference_self:
  "\<not> isnan x \<Longrightarrow> \<not> isnan y \<Longrightarrow> \<not> isnan z \<Longrightarrow>
     difference (x, y, z) (x, y, z) = (Fin 0, Fin 0, Fin 0)"
  by (cases x; cases y; cases z) (simp_all add: minus_pyfloat_def)

theorem difference_self_witness:
  "\<not> isnan (Fin 6378.137) \<and> \<not> isnan (Fin 0) \<and> \<not> isnan (Fin (- 2)) \<and>
   difference (Fin 6378.137, Fin 0, Fin (- 2)) (Fin 6378.137, Fin 0, Fin (- 2))
     = (Fin 0, Fin 0, Fin 0)"
  using difference_self [of "Fin 6378.137" "Fin 0" "Fin (- 2)"] by simp

text \<open>
  C8. For every pose with finite latitude and longitude, the rotation of the zero
  difference vector is the zero SEZ vector.
\<close>

theorem rotate_zero:
  "\<not> isnan (pose_lat p) \<Longrightarrow> \<not> isnan (pose_lon p) \<Longrightarrow>
     rotate (Fin 0, Fin 0, Fin 0) p = (Fin 0, Fin 0, Fin 0)"
  by (cases "pose_lat p"; cases "pose_lon p")
     (simp_all add: Let_def times_pyfloat_def plus_pyfloat_def minus_pyfloat_def
        uminus_pyfloat_def py_sin_def py_cos_def)

theorem rotate_zero_witness:
  "\<not> isnan (pose_lat \<lparr>pose_lat = Fin 1, pose_lon = Fin 2, pose_hae = NaN\<rparr>) \<and>
   \<not> isnan (pose_lon \<lparr>pose_lat = Fin 1, pose_lon = Fin 2, pose_hae = NaN\<rparr>) \<and>
   rotate (Fin 0, Fin 0, Fin 0) \<lparr>pose_lat = Fin 1, pose_lon = Fin 2, pose_hae = NaN\<rparr>
     = (Fin 0, Fin 0, Fin 0)"
  using rotate_zero [of "\<lparr>pose_lat = Fin 1, pose_lon = Fin 2, pose_hae = NaN\<rparr>"] by simp

text \<open>
  C9, as stated: whenever the solver completes without error, the latitude lies in
  \<open>(-\<pi>/2, \<pi>/2)\<close> and the longitude in \<open>(-\<pi>, \<pi>]\<close>. For the origin \<open>(NaN, 0, 0)\<close> (the
  argument \<^verbatim>\<open>nan\<close>) nothing raises, the loop makes its five passes, and latitude, longitude
  and height are all NaN.
\<close>

theorem pose_range_counterexample:
  "solve (Fin 0) NaN (Fin 0) (Fin 0) = Inr \<lparr>pose_lat = NaN, pose_lon = NaN, pose_hae = NaN\<rparr> \<and>
   \<not> lat_in_range NaN \<and> \<not> lon_in_range NaN"
  by (simp add: lat_loop.simps run_defs pyfloat_arith)

text \<open>
  C9, amended. When the origin's components and the \<^verbatim>\<open>z_vec_km\<close> the solver reads are
  finite and the solver completes without error, the latitude lies in \<open>(-\<pi>/2, \<pi>/2)\<close> and
  the longitude in \<open>(-\<pi>, \<pi>]\<close>.
\<close>

theorem pose_in_range:
  assumes fin: "\<not> isnan z_vec_km" "\<not> isnan o_x_km" "\<not> isnan o_y_km" "\<not> isnan o_z_km"
    and ok: "solve z_vec_km o_x_km o_y_km o_z_km = Inr p"
  shows "lat_in_range (pose_lat p) \<and> lon_in_range (pose_lon p)"
proof -
  from fin obtain zv ox oy oz where
    v: "z_vec_km = Fin zv" "o_x_km = Fin ox" "o_y_km = Fin oy" "o_z_km = Fin oz"
    by (cases z_vec_km; cases o_x_km; cases o_y_km; cases o_z_km) auto
  from ok obtain lat0 r s where
    l0: "lat_init z_vec_km o_x_km o_y_km o_z_km = Inr lat0" and
    r: "r_lon_km o_x_km o_y_km = Inr r" and
    lp: "lat_loop o_z_km r (loop_init lat0) = Inr s" and
    p: "pose_lat p = lat_rad s" "pose_lon p = py_atan2 o_y_km o_x_km"
    by (auto simp: solve_def Let_def split: sum.splits)
  from l0 v obtain a where a: "lat0 = Fin a"
    using lat_init_finite by blast
  from r v obtain b where b: "r = Fin b"
    using r_lon_km_finite by blast
  have "lat_rad (loop_init lat0) = Fin a"
    by (simp add: loop_init_def a)
  with loop_cond_init [of lat0] obtain q where "lat_rad s = Fin (arctan q)"
    using lat_loop_finite [OF lp v(4) b] by blast
  with p(1) arctan_lbound [of q] arctan_ubound [of q] have "lat_in_range (pose_lat p)"
    by simp
  moreover from p(2) v atan2_real_range [of oy ox] have "lon_in_range (pose_lon p)"
    by (simp add: py_atan2_def)
  ultimately show ?thesis ..
qed

theorem pose_in_range_witness:
  "\<not> isnan (Fin 0) \<and> \<not> isnan (Fin 1) \<and>
   solve (Fin 0) (Fin 1) (Fin 0) (Fin 0) =
     Inr \<lparr>pose_lat = Fin 0, pose_lon = Fin 0, pose_hae = Fin (- 6377.137)\<rparr> \<and>
   lat_in_range (Fin 0) \<and> lon_in_range (Fin 0)"
  using pose_in_range [of "Fin 0" "Fin 1" "Fin 0" "Fin 0", OF _ _ _ _ solve_equator]
  by (simp add: solve_equator)

text \<open>
  C10. There are six finite arguments with a non-degenerate origin and
  \<open>|z_km - o_z_km|\<close> above the origin's norm for which the initial \<^verbatim>\<open>asin\<close> raises
  \<^verbatim>\<open>ValueError: math domain error\<close> and the script ends without output: the origin
  \<open>(1, 0, 0)\<close> with the target \<open>(1, 0, 3)\<close>.
\<close>

theorem asin_domain_error_exists:
  "\<exists>ox oy oz x y z n.
     origin_norm (Fin ox) (Fin oy) (Fin oz) = Inr (Fin n) \<and> 0 < n \<and> n < \<bar>z - oz\<bar> \<and>
     lat_init (Fin z - Fin oz) (Fin ox) (Fin oy) (Fin oz) = Inl ValueError \<and>
     ecef_to_sez (Fin ox) (Fin oy) (Fin oz) (Fin x) (Fin y) (Fin z) =
       \<lparr>stdout = [], ending = Uncaught ValueError\<rparr>"
proof -
  have "origin_norm (Fin 1) (Fin 0) (Fin 0) = Inr (Fin 1) \<and> (0::real) < 1 \<and> (1::real) < \<bar>3 - 0\<bar> \<and>
     lat_init (Fin 3 - Fin 0) (Fin 1) (Fin 0) (Fin 0) = Inl ValueError \<and>
     ecef_to_sez (Fin 1) (Fin 0) (Fin 0) (Fin 1) (Fin 0) (Fin 3) =
       \<lparr>stdout = [], ending = Uncaught ValueError\<rparr>"
    by (simp add: run_defs pyfloat_arith)
  then show ?thesis by blast
qed

end
